theory Spec2Isabelle
  imports Complex_Main
begin

section \<open>Python values and the exceptions of the built-in operations\<close>

text \<open>
  The program of \<^verbatim>\<open>src/main.py\<close> handles dynamically typed values: the dictionaries
  that boto3 returns, the body that \<^verbatim>\<open>json.loads\<close> parses, the request it builds.
  They are embedded as one datatype. A dictionary is an association list with string
  keys, read with \<open>map_of\<close>. A float is embedded as a rational: the program only
  passes floats on and subtracts two clock readings, and the claims use the sign of that
  difference only, which rounding keeps.
\<close>

datatype pyval =
    PNone
  | PBool bool
  | PInt int
  | PFloat rat
  | PStr string
  | PList "pyval list"
  | PDict "(string \<times> pyval) list"

text \<open>
  An exception is a value. \<open>KeyError\<close>, \<open>TypeError\<close> and \<open>IndexError\<close> are raised by
  the built-in operations below; \<open>ServiceError\<close> stands for whatever a library or
  service call raises (boto3, PyPDF2, tempfile, os), with its message.
\<close>

datatype exn =
    KeyError string
  | TypeError
  | IndexError
  | ServiceError string

definition bindE :: "exn + 'a \<Rightarrow> ('a \<Rightarrow> exn + 'b) \<Rightarrow> exn + 'b" where
  "bindE m f = (case m of Inl e \<Rightarrow> Inl e | Inr x \<Rightarrow> f x)"

text \<open>\<^verbatim>\<open>k in s\<close> for two strings: \<open>k\<close> occurs in \<open>s\<close> as a contiguous run.\<close>

fun is_substring :: "string \<Rightarrow> string \<Rightarrow> bool" where
  "is_substring k [] = (k = [])"
| "is_substring k (c # cs) = (take (length k) (c # cs) = k \<or> is_substring k cs)"

text \<open>
  \<^verbatim>\<open>k in v\<close> for a string \<open>k\<close>: key membership in a dictionary, element membership in a
  list (a string equals strings only), substring test in a string, \<open>TypeError\<close> on
  anything else.
\<close>

fun py_contains :: "string \<Rightarrow> pyval \<Rightarrow> exn + bool" where
  "py_contains k (PDict kv) = Inr (k \<in> set (map fst kv))"
| "py_contains k (PList xs) = Inr (PStr k \<in> set xs)"
| "py_contains k (PStr s) = Inr (is_substring k s)"
| "py_contains k PNone = Inl TypeError"
| "py_contains k (PBool b) = Inl TypeError"
| "py_contains k (PInt i) = Inl TypeError"
| "py_contains k (PFloat r) = Inl TypeError"

text \<open>\<^verbatim>\<open>v[k]\<close> for a string \<open>k\<close>: only a dictionary accepts a string subscript.\<close>

fun py_getitem :: "pyval \<Rightarrow> string \<Rightarrow> exn + pyval" where
  "py_getitem (PDict kv) k = (case map_of kv k of None \<Rightarrow> Inl (KeyError k) | Some v \<Rightarrow> Inr v)"
| "py_getitem PNone k = Inl TypeError"
| "py_getitem (PBool b) k = Inl TypeError"
| "py_getitem (PInt i) k = Inl TypeError"
| "py_getitem (PFloat r) k = Inl TypeError"
| "py_getitem (PStr s) k = Inl TypeError"
| "py_getitem (PList xs) k = Inl TypeError"

text \<open>
  \<^verbatim>\<open>v[0]\<close>: the first element of a list, the first character of a string; a dictionary
  with string keys has no key \<open>0\<close>.
\<close>

fun py_getitem0 :: "pyval \<Rightarrow> exn + pyval" where
  "py_getitem0 (PList []) = Inl IndexError"
| "py_getitem0 (PList (x # xs)) = Inr x"
| "py_getitem0 (PStr []) = Inl IndexError"
| "py_getitem0 (PStr (c # cs)) = Inr (PStr [c])"
| "py_getitem0 (PDict kv) = Inl (KeyError ''0'')"
| "py_getitem0 PNone = Inl TypeError"
| "py_getitem0 (PBool b) = Inl TypeError"
| "py_getitem0 (PInt i) = Inl TypeError"
| "py_getitem0 (PFloat r) = Inl TypeError"

fun py_len :: "pyval \<Rightarrow> exn + nat" where
  "py_len (PList xs) = Inr (length xs)"
| "py_len (PStr s) = Inr (length s)"
| "py_len (PDict kv) = Inr (length kv)"
| "py_len PNone = Inl TypeError"
| "py_len (PBool b) = Inl TypeError"
| "py_len (PInt i) = Inl TypeError"
| "py_len (PFloat r) = Inl TypeError"

text \<open>
  \<^verbatim>\<open>for x in v\<close>: the elements of a list, the keys of a dictionary, the characters of a
  string.
\<close>

fun py_iter :: "pyval \<Rightarrow> exn + pyval list" where
  "py_iter (PList xs) = Inr xs"
| "py_iter (PDict kv) = Inr (map (\<lambda>p. PStr (fst p)) kv)"
| "py_iter (PStr s) = Inr (map (\<lambda>c. PStr [c]) s)"
| "py_iter PNone = Inl TypeError"
| "py_iter (PBool b) = Inl TypeError"
| "py_iter (PInt i) = Inl TypeError"
| "py_iter (PFloat r) = Inl TypeError"

text \<open>\<^verbatim>\<open>sep.join(xs)\<close>: every element has to be a string.\<close>

fun join_strs :: "string \<Rightarrow> string list \<Rightarrow> string" where
  "join_strs sep [] = []"
| "join_strs sep [s] = s"
| "join_strs sep (s # t # ts) = s @ sep @ join_strs sep (t # ts)"

fun strs_of :: "pyval list \<Rightarrow> exn + string list" where
  "strs_of [] = Inr []"
| "strs_of (PStr s # xs) = bindE (strs_of xs) (\<lambda>ss. Inr (s # ss))"
| "strs_of (x # xs) = Inl TypeError"

definition py_join :: "string \<Rightarrow> pyval list \<Rightarrow> exn + string" where
  "py_join sep xs = bindE (strs_of xs) (\<lambda>ss. Inr (join_strs sep ss))"

text \<open>\<^verbatim>\<open>s.split(c)\<close> for a one-character separator; the result is never empty.\<close>

fun split_on :: "char \<Rightarrow> string \<Rightarrow> string list" where
  "split_on c [] = [[]]"
| "split_on c (x # xs) =
     (if x = c then [] # split_on c xs
      else (case split_on c xs of [] \<Rightarrow> [[x]] | w # ws \<Rightarrow> (x # w) # ws))"

section \<open>The environment: configuration, services, clock\<close>

text \<open>
  \<^verbatim>\<open>datetime.now()\<close>; \<open>year\<close> is within 1..9999 in Python.
\<close>

record datetime =
  year :: nat
  month :: nat
  day :: nat
  hour :: nat
  minute :: nat
  second :: nat

text \<open>
  What the program reads from outside itself. Every library and service call is a field
  that gives the call's outcome, an exception or a value:
  \<^item> \<open>S3_BUCKET\<close>, \<open>AWS_REGION\<close>: the module's two settings (\<open>S3_BUCKET\<close> is \<open>None\<close>
    when the variable is not set);
  \<^item> \<open>boto3_client\<close>: \<^verbatim>\<open>boto3.client(service, region_name=AWS_REGION)\<close>, \<open>Some e\<close> when
    creating the client raises;
  \<^item> \<open>upload_fileobj\<close>: the object store's upload of the file's bytes to bucket and key;
  \<^item> \<open>detect_document_text\<close>: the OCR call on a document reference;
  \<^item> \<open>invoke_model\<close>: the model call with model id and request body, followed by
    \<^verbatim>\<open>json.loads(response['body'].read())\<close>: the parsed body, or the exception of
    any of the three;
  \<^item> \<open>tmp_write\<close>, \<open>PdfReader\<close>, \<open>unlink\<close>: writing the temporary file, reading the
    PDF's pages (for each page the outcome of \<^verbatim>\<open>extract_text()\<close>), deleting the file;
  \<^item> \<open>st_image\<close>: showing the file's bytes as an image (line 240), \<open>Some e\<close> when the
    bytes cannot be opened as an image;
  \<^item> \<open>time\<close>: the successive readings of \<^verbatim>\<open>time.time()\<close>, by the number of the call;
  \<^item> \<open>now\<close>: \<^verbatim>\<open>datetime.now()\<close>.
\<close>

record world =
  S3_BUCKET :: "string option"
  AWS_REGION :: string
  boto3_client :: "string \<Rightarrow> string \<Rightarrow> exn option"
  upload_fileobj :: "string \<Rightarrow> string option \<Rightarrow> string \<Rightarrow> exn option"
  detect_document_text :: "pyval \<Rightarrow> exn + pyval"
  invoke_model :: "string \<Rightarrow> pyval \<Rightarrow> exn + pyval"
  tmp_write :: "string \<Rightarrow> exn option"
  PdfReader :: "string \<Rightarrow> exn + (exn + string) list"
  unlink :: "exn option"
  st_image :: "string \<Rightarrow> exn option"
  time :: "nat \<Rightarrow> rat"
  now :: datetime

text \<open>
  What the program does to the outside, in order: the messages and widgets it shows and
  the three network calls with their arguments.
\<close>

datatype event =
    StError string
  | StErrorExn string exn
  | StSuccess string
  | StWrite string
  | StImage string
  | StSubheader string
  | StTextArea string pyval
  | StMetric string pyval
  | S3Upload "string option" string
  | TextractDetect pyval
  | BedrockInvoke string pyval

record state =
  trace :: "event list"
  ticks :: nat

definition emit :: "event \<Rightarrow> state \<Rightarrow> state" where
  "emit ev s = s\<lparr>trace := trace s @ [ev]\<rparr>"

definition time_time :: "world \<Rightarrow> state \<Rightarrow> rat \<times> state" where
  "time_time w s = (time w (ticks s), s\<lparr>ticks := Suc (ticks s)\<rparr>)"

definition MODEL_ID :: string where
  "MODEL_ID = ''amazon.nova-micro-v1:0''"

section \<open>The Object Store Client\<close>

text \<open>
  \<^verbatim>\<open>upload_to_s3\<close>: the client is created outside the \<^verbatim>\<open>try\<close>, so its exception
  leaves the function; an exception of the upload is reported and gives \<open>False\<close>.
\<close>

definition upload_to_s3 ::
  "world \<Rightarrow> string \<Rightarrow> string option \<Rightarrow> string \<Rightarrow> state \<Rightarrow> (exn + bool) \<times> state" where
  "upload_to_s3 w file_obj bucket key s =
     (case boto3_client w ''s3'' (AWS_REGION w) of
        Some e \<Rightarrow> (Inl e, s)
      | None \<Rightarrow>
          (let s1 = emit (S3Upload bucket key) s in
           case upload_fileobj w file_obj bucket key of
             None \<Rightarrow> (Inr True, s1)
           | Some e \<Rightarrow> (Inr False, emit (StErrorExn ''Error uploading to S3: '' e) s1)))"

section \<open>The Inference Client\<close>

definition system_list :: pyval where
  "system_list = PList [PDict [(''text'',
     PStr ''You are a helpful assistant that analyzes text from scanned documents'')]]"

definition message_list :: "string \<Rightarrow> string \<Rightarrow> pyval" where
  "message_list prompt extracted_text = PList [PDict
     [(''role'', PStr ''user''),
      (''content'', PList [PDict [(''text'',
         PStr (prompt @ '':\<newline>\<newline>'' @ extracted_text @ ''\<newline>\<newline>''))]])]]"

definition inf_params :: pyval where
  "inf_params = PDict
     [(''max_new_tokens'', PInt 1000),
      (''top_p'', PFloat (9 / 10)),
      (''top_k'', PInt 20),
      (''temperature'', PFloat (7 / 10))]"

definition request_body :: "string \<Rightarrow> string \<Rightarrow> pyval" where
  "request_body prompt extracted_text = PDict
     [(''schemaVersion'', PStr ''messages-v1''),
      (''messages'', message_list prompt extracted_text),
      (''system'', system_list),
      (''inferenceConfig'', inf_params)]"

text \<open>Lines 77 to 81: reading the parsed response body.\<close>

definition read_response :: "pyval \<Rightarrow> exn + pyval" where
  "read_response response_body =
     bindE (py_contains ''output'' response_body) (\<lambda>has_output.
       if has_output then
         bindE (py_getitem response_body ''output'') (\<lambda>output.
         bindE (py_getitem output ''message'') (\<lambda>message.
         bindE (py_contains ''content'' message) (\<lambda>has_content.
           if has_content then
             bindE (py_getitem message ''content'') (\<lambda>content.
             bindE (py_len content) (\<lambda>n.
               if n > 0 then
                 bindE (py_getitem message ''content'') (\<lambda>content'.
                 bindE (py_getitem0 content') (\<lambda>first.
                   py_getitem first ''text''))
               else Inr (PStr [])))
           else Inr (PStr []))))
       else Inr (PStr []))"

definition invoke_bedrock_model :: "world \<Rightarrow> string \<Rightarrow> string \<Rightarrow> state \<Rightarrow> pyval \<times> state" where
  "invoke_bedrock_model w prompt extracted_text s =
     (let body = request_body prompt extracted_text;
          s1 = emit (BedrockInvoke MODEL_ID body) s
      in case bindE (invoke_model w MODEL_ID body) read_response of
           Inr v \<Rightarrow> (v, s1)
         | Inl e \<Rightarrow> (PStr [], emit (StErrorExn ''Error invoking model: '' e) s1))"

section \<open>The Text Extraction Client and the pipeline\<close>

text \<open>
  Line 119, the list comprehension: for each block in turn the test
  \<^verbatim>\<open>"Text" in block\<close>, then \<^verbatim>\<open>block["Text"]\<close>; the first exception ends it.
\<close>

fun text_blocks :: "pyval list \<Rightarrow> exn + pyval list" where
  "text_blocks [] = Inr []"
| "text_blocks (block # blocks) =
     bindE (py_contains ''Text'' block) (\<lambda>has_text.
       if has_text then
         bindE (py_getitem block ''Text'') (\<lambda>t.
         bindE (text_blocks blocks) (\<lambda>ts. Inr (t # ts)))
       else text_blocks blocks)"

text \<open>Lines 118 to 120, on the response of the OCR call.\<close>

definition extract_text :: "pyval \<Rightarrow> exn + string" where
  "extract_text detect_text_output =
     bindE (py_getitem detect_text_output ''Blocks'') (\<lambda>blocks.
     bindE (py_iter blocks) (\<lambda>bs.
     bindE (text_blocks bs) (\<lambda>ts.
       py_join ''\<newline>'' ts)))"

definition document_of :: "world \<Rightarrow> string \<Rightarrow> pyval" where
  "document_of w s3_key = PDict [(''S3Object'', PDict
     [(''Bucket'', (case S3_BUCKET w of None \<Rightarrow> PNone | Some b \<Rightarrow> PStr b)),
      (''Name'', PStr s3_key)])]"

text \<open>
  The body of the \<^verbatim>\<open>try\<close> of \<^verbatim>\<open>process_document\<close>, lines 103 to 134. What was shown
  and the clock readings taken before an exception stay in the state.
\<close>

definition process_document_try ::
  "world \<Rightarrow> string \<Rightarrow> string \<Rightarrow> state \<Rightarrow> (exn + pyval) \<times> state" where
  "process_document_try w s3_key custom_prompt s =
     (case boto3_client w ''textract'' (AWS_REGION w) of
        Some e \<Rightarrow> (Inl e, s)
      | None \<Rightarrow>
     (case boto3_client w ''bedrock-runtime'' (AWS_REGION w) of
        Some e \<Rightarrow> (Inl e, s)
      | None \<Rightarrow>
     (let document = document_of w s3_key;
          (textract_start, s1) = time_time w s;
          s2 = emit (TextractDetect document) s1
      in case bindE (detect_document_text w document) extract_text of
           Inl e \<Rightarrow> (Inl e, s2)
         | Inr extracted_text \<Rightarrow>
     (let (t1, s3) = time_time w s2;
          textract_time = t1 - textract_start;
          (bedrock_start, s4) = time_time w s3;
          (analysis_result, s5) = invoke_bedrock_model w custom_prompt extracted_text s4;
          (t2, s6) = time_time w s5;
          bedrock_time = t2 - bedrock_start
      in (Inr (PDict
            [(''extracted_text'', PStr extracted_text),
             (''analysis_result'', analysis_result),
             (''textract_time'', PFloat textract_time),
             (''bedrock_time'', PFloat bedrock_time)]), s6)))))"

definition process_document :: "world \<Rightarrow> string \<Rightarrow> string \<Rightarrow> state \<Rightarrow> pyval \<times> state" where
  "process_document w s3_key custom_prompt s =
     (case process_document_try w s3_key custom_prompt s of
        (Inr result, s') \<Rightarrow> (result, s')
      | (Inl e, s') \<Rightarrow>
          (PDict
            [(''extracted_text'', PStr []),
             (''analysis_result'', PStr []),
             (''textract_time'', PInt 0),
             (''bedrock_time'', PInt 0)],
           emit (StErrorExn ''Error processing document: '' e) s'))"

section \<open>The storage key\<close>

definition digit :: "nat \<Rightarrow> char" where
  "digit n = ''0123456789'' ! (n mod 10)"

definition pad2 :: "nat \<Rightarrow> string" where
  "pad2 n = [digit (n div 10), digit n]"

text \<open>
  \<^verbatim>\<open>%Y\<close>: the year in decimal. The C library underneath does not pad a year below 1000
  on every platform; the model is that unpadded form, for a year up to 9999.
\<close>

definition strftime_Y :: "nat \<Rightarrow> string" where
  "strftime_Y y =
     (if y < 10 then [digit y]
      else if y < 100 then [digit (y div 10), digit y]
      else if y < 1000 then [digit (y div 100), digit (y div 10), digit y]
      else [digit (y div 1000), digit (y div 100), digit (y div 10), digit y])"

text \<open>\<^verbatim>\<open>strftime('%Y%m%d_%H%M%S')\<close>\<close>

definition strftime :: "datetime \<Rightarrow> string" where
  "strftime d = strftime_Y (year d) @ pad2 (month d) @ pad2 (day d) @ ''_''
                @ pad2 (hour d) @ pad2 (minute d) @ pad2 (second d)"

text \<open>Lines 246 and 247.\<close>

definition file_extension :: "string \<Rightarrow> string" where
  "file_extension nm = last (split_on CHR ''.'' nm)"

definition s3_key :: "datetime \<Rightarrow> string \<Rightarrow> string" where
  "s3_key d nm = ''uploads/'' @ strftime d @ ''.'' @ file_extension nm"

section \<open>The interface\<close>

text \<open>
  The uploaded file: its name, its declared type, its bytes. The widgets' values in one
  run of the script: the four sliders, the file, the prompt, and whether the button is
  pressed when it is shown.
\<close>

record UploadedFile =
  name :: string
  file_type :: string
  getvalue :: string

record ui =
  max_new_tokens :: int
  temperature :: rat
  top_p :: rat
  top_k :: int
  uploaded_file :: "UploadedFile option"
  custom_prompt :: string
  button :: bool

definition multi_page_message :: string where
  "multi_page_message = ''Multi-page documents are not supported for this ''
     @ ''demonstration. Please upload a single-page document.''"

text \<open>
  The body of the \<^verbatim>\<open>try\<close> of the PDF preview, lines 207 to 232; the value is the variable
  \<^verbatim>\<open>uploaded_file\<close> after it.
\<close>

definition pdf_preview_try ::
  "world \<Rightarrow> UploadedFile \<Rightarrow> state \<Rightarrow> (exn + UploadedFile option) \<times> state" where
  "pdf_preview_try w f s =
     (case tmp_write w (getvalue f) of
        Some e \<Rightarrow> (Inl e, s)
      | None \<Rightarrow>
     (case PdfReader w (getvalue f) of
        Inl e \<Rightarrow> (Inl e, s)
      | Inr pages \<Rightarrow>
          (let num_pages = length pages in
           if num_pages > 1 then
             (let s1 = emit (StError multi_page_message) s
              in case unlink w of Some e \<Rightarrow> (Inl e, s1) | None \<Rightarrow> (Inr None, s1))
           else
             (let s1 = emit (StWrite ''PDF document preview:'') s
              in case pages of
                   [] \<Rightarrow> (Inl IndexError, s1)
                 | page # rest \<Rightarrow>
                     (case page of
                        Inl e \<Rightarrow> (Inl e, s1)
                      | Inr text \<Rightarrow>
                          (let s2 = emit (StTextArea ''PDF content'' (PStr text)) s1
                           in case unlink w of
                                Some e \<Rightarrow> (Inl e, s2)
                              | None \<Rightarrow> (Inr (Some f), s2)))))))"

text \<open>
  Lines 203 to 240; the value is the variable \<^verbatim>\<open>uploaded_file\<close> after them. The PDF
  branch catches what it raises; \<^verbatim>\<open>st.image\<close> is outside every \<^verbatim>\<open>try\<close>, so its
  exception leaves these lines, and \<^verbatim>\<open>main\<close>.
\<close>

definition preview ::
  "world \<Rightarrow> UploadedFile option \<Rightarrow> state \<Rightarrow> (exn + UploadedFile option) \<times> state" where
  "preview w uf s =
     (case uf of
        None \<Rightarrow> (Inr None, s)
      | Some f \<Rightarrow>
          if file_type f = ''application/pdf'' then
            (case pdf_preview_try w f s of
               (Inr uf', s') \<Rightarrow> (Inr uf', s')
             | (Inl e, s') \<Rightarrow> (Inr None, emit (StErrorExn ''Error processing PDF: '' e) s'))
          else if take (length ''image/'') (file_type f) = ''image/'' then
            (let s1 = emit (StWrite ''Image preview:'') s in
             case st_image w (getvalue f) of
               Some e \<Rightarrow> (Inl e, s1)
             | None \<Rightarrow> (Inr (Some f), emit (StImage ''Preview of uploaded document'') s1))
          else (Inr (Some f), s))"

text \<open>
  Lines 257 to 281: the three metrics and the two text areas. A missing key of the result
  would raise.
\<close>

definition show_results :: "pyval \<Rightarrow> rat \<Rightarrow> state \<Rightarrow> exn option \<times> state" where
  "show_results result total_time s =
     (case py_getitem result ''textract_time'' of
        Inl e \<Rightarrow> (Some e, s)
      | Inr textract_time \<Rightarrow>
     (let s1 = emit (StMetric ''Textract Processing Time'' textract_time) s in
      case py_getitem result ''bedrock_time'' of
        Inl e \<Rightarrow> (Some e, s1)
      | Inr bedrock_time \<Rightarrow>
     (let s2 = emit (StMetric ''Bedrock Analysis Time'' bedrock_time) s1;
          s3 = emit (StMetric ''Total Processing Time'' (PFloat total_time)) s2;
          s4 = emit (StSubheader ''Extracted Text'') s3
      in case py_getitem result ''extracted_text'' of
        Inl e \<Rightarrow> (Some e, s4)
      | Inr extracted_text \<Rightarrow>
     (let s5 = emit (StTextArea ''Text extracted from document'' extracted_text) s4;
          s6 = emit (StSubheader ''Analysis Result'') s5
      in case py_getitem result ''analysis_result'' of
        Inl e \<Rightarrow> (Some e, s6)
      | Inr analysis_result \<Rightarrow>
          (None, emit (StTextArea ''AI analysis results'' analysis_result) s6)))))"

text \<open>
  \<^verbatim>\<open>main\<close>. The sliders are read (lines 157 to 184) and their values are not used
  afterwards. The value is the exception that leaves \<^verbatim>\<open>main\<close>, if one does.
\<close>

definition main :: "world \<Rightarrow> ui \<Rightarrow> state \<Rightarrow> exn option \<times> state" where
  "main w u s =
     (case preview w (uploaded_file u) s of
        (Inl e, s1) \<Rightarrow> (Some e, s1)
      | (Inr None, s1) \<Rightarrow> (None, s1)
      | (Inr (Some f), s1) \<Rightarrow>
          if \<not> button u then (None, s1)
          else
            (let (total_start, s2) = time_time w s1;
                 key = s3_key (now w) (name f)
             in case upload_to_s3 w (getvalue f) (S3_BUCKET w) key s2 of
                  (Inl e, s3) \<Rightarrow> (Some e, s3)
                | (Inr False, s3) \<Rightarrow> (None, emit (StError ''Failed to upload file'') s3)
                | (Inr True, s3) \<Rightarrow>
                    (let s4 = emit (StSuccess ''File uploaded successfully!'') s3;
                         (result, s5) = process_document w key (custom_prompt u) s4;
                         (t, s6) = time_time w s5;
                         total_time = t - total_start
                     in show_results result total_time s6)))"

text \<open>
  The script: the module's check of \<open>S3_BUCKET\<close> (lines 18 to 20, \<^verbatim>\<open>not S3_BUCKET\<close>
  holds for \<open>None\<close> and for the empty string), then \<^verbatim>\<open>main()\<close>.
\<close>

definition init_state :: state where
  "init_state = \<lparr>trace = [], ticks = 0\<rparr>"

definition startup :: "world \<Rightarrow> state" where
  "startup w =
     (if S3_BUCKET w = None \<or> S3_BUCKET w = Some []
      then emit (StError ''S3_BUCKET environment variable is not set!'') init_state
      else init_state)"

definition script :: "world \<Rightarrow> ui \<Rightarrow> exn option \<times> state" where
  "script w u = main w u (startup w)"

text \<open>The three network calls, as events.\<close>

fun is_network_call :: "event \<Rightarrow> bool" where
  "is_network_call (S3Upload b k) = True"
| "is_network_call (TextractDetect d) = True"
| "is_network_call (BedrockInvoke m b) = True"
| "is_network_call ev = False"

fun is_upload_call :: "event \<Rightarrow> bool" where
  "is_upload_call (S3Upload b k) = True"
| "is_upload_call ev = False"

fun is_inference_call :: "event \<Rightarrow> bool" where
  "is_inference_call (BedrockInvoke m b) = True"
| "is_inference_call ev = False"

fun is_textract_call :: "event \<Rightarrow> bool" where
  "is_textract_call (TextractDetect d) = True"
| "is_textract_call ev = False"

section \<open>The properties, as the specification words them\<close>

text \<open>
  An OCR block is a dictionary; its text field, when it carries one, is a string.
  \<open>block_text\<close> is the field, \<open>spec_fragments\<close> the text fragments of the blocks that
  carry one, in the order of the response.
\<close>

fun block_text :: "pyval \<Rightarrow> pyval option" where
  "block_text (PDict kv) = map_of kv ''Text''"
| "block_text b = None"

fun is_block :: "pyval \<Rightarrow> bool" where
  "is_block (PDict kv) =
     (case map_of kv ''Text'' of None \<Rightarrow> True | Some (PStr t) \<Rightarrow> True | Some v \<Rightarrow> False)"
| "is_block b = False"

definition spec_fragments :: "pyval list \<Rightarrow> string list" where
  "spec_fragments blocks =
     List.map_filter (\<lambda>b. case block_text b of Some (PStr t) \<Rightarrow> Some t | _ \<Rightarrow> None) blocks"

text \<open>
  The content array of the output/message/content structure of a model response, when
  the response has that structure.
\<close>

definition structure_content :: "pyval \<Rightarrow> pyval list option" where
  "structure_content response_body =
     (case response_body of
        PDict kv \<Rightarrow>
          (case map_of kv ''output'' of
             Some (PDict okv) \<Rightarrow>
               (case map_of okv ''message'' of
                  Some (PDict mkv) \<Rightarrow>
                    (case map_of mkv ''content'' of
                       Some (PList cs) \<Rightarrow> Some cs
                     | _ \<Rightarrow> None)
                | _ \<Rightarrow> None)
           | _ \<Rightarrow> None)
      | _ \<Rightarrow> None)"

text \<open>The pattern \<^verbatim>\<open>YYYYMMDD_HHMMSS\<close>: eight digits, an underscore, six digits.\<close>

definition is_digit :: "char \<Rightarrow> bool" where
  "is_digit c = (c \<in> set ''0123456789'')"

definition matches_timestamp :: "string \<Rightarrow> bool" where
  "matches_timestamp ts =
     (length ts = 15 \<and> list_all is_digit (take 8 ts) \<and> ts ! 8 = CHR ''_''
      \<and> list_all is_digit (drop 9 ts))"

text \<open>A timing value of the result: the integer 0 or a float, not negative.\<close>

fun timing_nonneg :: "pyval \<Rightarrow> bool" where
  "timing_nonneg (PFloat r) = (0 \<le> r)"
| "timing_nonneg (PInt i) = (0 \<le> i)"
| "timing_nonneg v = False"

section \<open>Concrete runs\<close>

text \<open>
  An environment in which every call succeeds, and variants of it in which one call
  behaves differently; an interface state with an image and one with a PDF.
\<close>

definition sample_blocks :: "pyval list" where
  "sample_blocks =
     [PDict [(''BlockType'', PStr ''PAGE'')],
      PDict [(''BlockType'', PStr ''LINE''), (''Text'', PStr ''Hello'')],
      PDict [(''BlockType'', PStr ''WORD''), (''Text'', PStr ''World'')]]"

definition sample_response :: pyval where
  "sample_response = PDict [(''Blocks'', PList sample_blocks)]"

definition sample_model_response :: pyval where
  "sample_model_response = PDict [(''output'', PDict [(''message'', PDict
     [(''role'', PStr ''assistant''),
      (''content'', PList [PDict [(''text'', PStr ''a,b,c'')]])])])]"

definition world_ok :: world where
  "world_ok = \<lparr>
     S3_BUCKET = Some ''bucket'',
     AWS_REGION = ''us-east-1'',
     boto3_client = (\<lambda>service region. None),
     upload_fileobj = (\<lambda>file_obj bucket key. None),
     detect_document_text = (\<lambda>document. Inr sample_response),
     invoke_model = (\<lambda>model body. Inr sample_model_response),
     tmp_write = (\<lambda>bytes. None),
     PdfReader = (\<lambda>bytes. Inr [Inr ''page text'']),
     unlink = None,
     st_image = (\<lambda>bytes. None),
     time = (\<lambda>n. of_nat n),
     now = \<lparr>year = 2024, month = 3, day = 9, hour = 14, minute = 5, second = 7\<rparr>\<rparr>"

definition world_ocr_fails :: world where
  "world_ocr_fails =
     world_ok\<lparr>detect_document_text := (\<lambda>document. Inl (ServiceError ''ThrottlingException''))\<rparr>"

definition world_no_output :: world where
  "world_no_output =
     world_ok\<lparr>invoke_model := (\<lambda>model body. Inr (PDict [(''message'', PStr ''overloaded'')]))\<rparr>"

definition world_three_pages :: world where
  "world_three_pages =
     world_ok\<lparr>PdfReader := (\<lambda>bytes. Inr [Inr ''one'', Inr ''two'', Inr ''three''])\<rparr>"

definition world_corrupt_pdf :: world where
  "world_corrupt_pdf =
     world_ok\<lparr>PdfReader := (\<lambda>bytes. Inl (ServiceError ''EOF marker not found''))\<rparr>"

definition world_upload_fails :: world where
  "world_upload_fails =
     world_ok\<lparr>upload_fileobj := (\<lambda>file_obj bucket key. Some (ServiceError ''AccessDenied''))\<rparr>"

definition world_clock_back :: world where
  "world_clock_back = world_ok\<lparr>time := (\<lambda>n. if n = 0 then 10 else 8)\<rparr>"

definition ui_png :: ui where
  "ui_png = \<lparr>
     max_new_tokens = 500, temperature = 7 / 10, top_p = 9 / 10, top_k = 20,
     uploaded_file = Some \<lparr>name = ''scan.png'', file_type = ''image/png'', getvalue = ''bytes''\<rparr>,
     custom_prompt = ''Summarise'',
     button = True\<rparr>"

definition ui_pdf :: ui where
  "ui_pdf = \<lparr>
     max_new_tokens = 1000, temperature = 7 / 10, top_p = 9 / 10, top_k = 20,
     uploaded_file = Some
       \<lparr>name = ''report.pdf'', file_type = ''application/pdf'', getvalue = ''%PDF''\<rparr>,
     custom_prompt = ''Summarise'',
     button = True\<rparr>"

section \<open>Basic facts\<close>

lemma trace_emit: "trace (emit ev s) = trace s @ [ev]"
  by (simp add: emit_def)

lemma ticks_emit: "ticks (emit ev s) = ticks s"
  by (simp add: emit_def)

lemma map_of_in_keys: "(k \<in> set (map fst kv)) = (map_of kv k \<noteq> None)"
  by (induction kv) auto

lemma py_getitem_Inr: "py_getitem v k = Inr x \<Longrightarrow> \<exists>kv. v = PDict kv \<and> map_of kv k = Some x"
  by (cases v) (auto split: option.splits)

lemma py_getitem0_str: "py_getitem0 (PStr s) = Inr x \<Longrightarrow> py_getitem x k = Inl TypeError"
  by (cases s) auto

section \<open>Text extraction\<close>

lemma text_blocks_wf:
  "list_all is_block blocks \<Longrightarrow>
   text_blocks blocks = Inr (map PStr (spec_fragments blocks))"
proof (induction blocks)
  case Nil
  show ?case by (simp add: spec_fragments_def)
next
  case (Cons b bs)
  from Cons.prems have b: "is_block b" and bs: "list_all is_block bs" by simp_all
  from b obtain kv where kv: "b = PDict kv" by (cases b) simp_all
  have IH: "text_blocks bs = Inr (map PStr (spec_fragments bs))" using Cons.IH bs by simp
  show ?case
  proof (cases "map_of kv ''Text''")
    case None
    then show ?thesis using IH kv
      by (simp add: spec_fragments_def bindE_def map_of_in_keys del: set_map)
  next
    case (Some v)
    with b kv obtain t where "v = PStr t" by (cases v) simp_all
    with Some show ?thesis using IH kv
      by (simp add: spec_fragments_def bindE_def map_of_in_keys del: set_map)
  qed
qed

lemma strs_of_map_PStr: "strs_of (map PStr ss) = Inr ss"
  by (induction ss) (simp_all add: bindE_def)

lemma spec_fragments_length:
  assumes "list_all is_block blocks"
  shows "length (spec_fragments blocks) = length (filter (\<lambda>b. block_text b \<noteq> None) blocks)"
  using assms
proof (induction blocks)
  case Nil
  show ?case by (simp add: spec_fragments_def)
next
  case (Cons b bs)
  then show ?case
    by (cases b) (auto simp add: spec_fragments_def split: option.splits pyval.splits)
qed

text \<open>
  Claim C3. For an OCR response whose \<open>Blocks\<close> are \<open>N\<close> blocks of which \<open>K\<close> carry a text
  field, the extracted text is the newline-join of exactly those \<open>K\<close> fragments in the
  order of the response, \<open>K \<le> N\<close>; when no block carries a text field the result is the
  empty string, not an exception.
\<close>

theorem extracted_text_is_join_of_fragments:
  assumes "py_getitem response ''Blocks'' = Inr (PList blocks)"
    and "list_all is_block blocks"
  shows "extract_text response = Inr (join_strs ''\<newline>'' (spec_fragments blocks))
       \<and> length (spec_fragments blocks) = length (filter (\<lambda>b. block_text b \<noteq> None) blocks)
       \<and> length (spec_fragments blocks) \<le> length blocks
       \<and> ((\<forall>b \<in> set blocks. block_text b = None) \<longrightarrow> extract_text response = Inr [])"
proof -
  have e: "extract_text response = Inr (join_strs ''\<newline>'' (spec_fragments blocks))"
    using assms
    by (simp add: extract_text_def bindE_def text_blocks_wf py_join_def strs_of_map_PStr)
  have l: "length (spec_fragments blocks) = length (filter (\<lambda>b. block_text b \<noteq> None) blocks)"
    using assms(2) by (rule spec_fragments_length)
  have n: "spec_fragments blocks = []" if "\<forall>b \<in> set blocks. block_text b = None"
    using l that by simp
  show ?thesis using e l n
    by (auto simp del: length_filter_le intro: le_trans[OF _ length_filter_le])
qed

theorem extracted_text_is_join_of_fragments_witness:
  "py_getitem sample_response ''Blocks'' = Inr (PList sample_blocks)
   \<and> list_all is_block sample_blocks
   \<and> spec_fragments sample_blocks = [''Hello'', ''World'']
   \<and> extract_text sample_response = Inr ''Hello\<newline>World''"
proof -
  have h1: "py_getitem sample_response ''Blocks'' = Inr (PList sample_blocks)"
    by (simp add: sample_response_def)
  have h2: "list_all is_block sample_blocks"
    by (simp add: sample_blocks_def)
  have f: "spec_fragments sample_blocks = [''Hello'', ''World'']"
    by (simp add: spec_fragments_def sample_blocks_def)
  from extracted_text_is_join_of_fragments[OF h1 h2] f
  have "extract_text sample_response = Inr ''Hello\<newline>World''" by simp
  with h1 h2 f show ?thesis by simp
qed

section \<open>The model response\<close>

lemma read_response_Inr:
  assumes "read_response rb = Inr v" and "v \<noteq> PStr []"
  shows "\<exists>c cs. structure_content rb = Some (c # cs) \<and> py_getitem c ''text'' = Inr v"
proof -
  from assms have ho: "py_contains ''output'' rb = Inr True"
    by (auto simp: read_response_def bindE_def split: sum.splits if_splits)
  with assms obtain out where out: "py_getitem rb ''output'' = Inr out"
    by (auto simp: read_response_def bindE_def split: sum.splits if_splits)
  then obtain kv where kv: "rb = PDict kv" "map_of kv ''output'' = Some out"
    using py_getitem_Inr by blast
  from assms ho out obtain msg where msg: "py_getitem out ''message'' = Inr msg"
    by (auto simp: read_response_def bindE_def split: sum.splits if_splits)
  then obtain okv where okv: "out = PDict okv" "map_of okv ''message'' = Some msg"
    using py_getitem_Inr by blast
  from assms ho out msg have hc: "py_contains ''content'' msg = Inr True"
    by (auto simp: read_response_def bindE_def split: sum.splits if_splits)
  with assms ho out msg obtain content where content: "py_getitem msg ''content'' = Inr content"
    by (auto simp: read_response_def bindE_def split: sum.splits if_splits)
  then obtain mkv where mkv: "msg = PDict mkv" "map_of mkv ''content'' = Some content"
    using py_getitem_Inr by blast
  from assms ho out msg hc content obtain c where
    c: "py_getitem0 content = Inr c" "py_getitem c ''text'' = Inr v"
    by (auto simp: read_response_def bindE_def split: sum.splits if_splits)
  from c obtain cs where "content = PList (c # cs)"
  proof (cases content)
    case (PStr s)
    with c show ?thesis using py_getitem0_str by fastforce
  next
    case (PList xs)
    with c that show ?thesis by (cases xs) auto
  qed auto
  with kv okv mkv c show ?thesis by (simp add: structure_content_def)
qed

text \<open>
  Claim C4. When the response of the inference service lacks the output/message/content
  structure (no output key, no content key, an empty content array, or any other
  deviation), \<^verbatim>\<open>invoke_bedrock_model\<close> returns the empty string. It returns a value in
  every case: the embedding of the function has no exceptional result, as its
  \<^verbatim>\<open>except Exception\<close> catches whatever the body of the \<^verbatim>\<open>try\<close> raises.
\<close>

theorem malformed_response_gives_empty_result:
  assumes "invoke_model w MODEL_ID (request_body prompt extracted_text) = Inr response_body"
    and "structure_content response_body = None \<or> structure_content response_body = Some []"
  shows "fst (invoke_bedrock_model w prompt extracted_text s) = PStr []"
proof (rule ccontr)
  assume n: "fst (invoke_bedrock_model w prompt extracted_text s) \<noteq> PStr []"
  then obtain v where "read_response response_body = Inr v" "v \<noteq> PStr []"
    using assms(1)
    by (auto simp: invoke_bedrock_model_def Let_def bindE_def split: sum.splits)
  then obtain c cs where "structure_content response_body = Some (c # cs)"
    using read_response_Inr by blast
  with assms(2) show False by simp
qed

theorem malformed_response_gives_empty_result_witness:
  "invoke_model world_no_output MODEL_ID (request_body ''Summarise'' ''Hello'')
     = Inr (PDict [(''message'', PStr ''overloaded'')])
   \<and> structure_content (PDict [(''message'', PStr ''overloaded'')]) = None
   \<and> fst (invoke_bedrock_model world_no_output ''Summarise'' ''Hello'' init_state) = PStr []"
proof -
  have h1: "invoke_model world_no_output MODEL_ID (request_body ''Summarise'' ''Hello'')
              = Inr (PDict [(''message'', PStr ''overloaded'')])"
    by (simp add: world_no_output_def world_ok_def)
  have h2: "structure_content (PDict [(''message'', PStr ''overloaded'')]) = None"
    by (simp add: structure_content_def)
  from h2 have h3: "structure_content (PDict [(''message'', PStr ''overloaded'')]) = None
      \<or> structure_content (PDict [(''message'', PStr ''overloaded'')]) = Some []" by simp
  from malformed_response_gives_empty_result[OF h1 h3, of init_state] h1 h2
  show ?thesis by simp
qed

section \<open>The preview and what it lets through\<close>

lemma startup_no_network: "\<not> list_ex is_network_call (trace (startup w))"
  by (simp add: startup_def init_state_def trace_emit)

lemma pdf_preview_try_network:
  "list_ex is_network_call (trace (snd (pdf_preview_try w f s)))
   = list_ex is_network_call (trace s)"
  by (simp add: pdf_preview_try_def Let_def trace_emit
           split: option.splits sum.splits list.splits)

lemma preview_network:
  "list_ex is_network_call (trace (snd (preview w uf s))) = list_ex is_network_call (trace s)"
proof (cases uf)
  case None
  then show ?thesis by (simp add: preview_def)
next
  case (Some f)
  obtain r s' where r: "pdf_preview_try w f s = (r, s')" by (cases "pdf_preview_try w f s")
  with pdf_preview_try_network[of w f s]
  have "list_ex is_network_call (trace s') = list_ex is_network_call (trace s)" by simp
  with Some r show ?thesis
    by (simp add: preview_def trace_emit Let_def split: sum.splits option.splits)
qed

lemma main_rejected:
  "fst (preview w (uploaded_file u) s) = Inr None \<Longrightarrow>
   main w u s = (None, snd (preview w (uploaded_file u) s))"
  by (cases "preview w (uploaded_file u) s") (simp add: main_def)

lemma pdf_multi_page:
  assumes "PdfReader w (getvalue f) = Inr pages" and "1 < length pages"
  shows "fst (pdf_preview_try w f s) = Inr None \<or> (\<exists>e. fst (pdf_preview_try w f s) = Inl e)"
  using assms by (simp add: pdf_preview_try_def Let_def split: option.splits)

lemma pdf_multi_page_trace:
  assumes "PdfReader w (getvalue f) = Inr pages" and "1 < length pages"
    and "tmp_write w (getvalue f) = None"
  shows "trace (snd (pdf_preview_try w f s)) = trace s @ [StError multi_page_message]"
  using assms
  by (simp add: pdf_preview_try_def Let_def trace_emit split: option.splits)

lemma pdf_tmp_write_fails:
  assumes "tmp_write w (getvalue f) = Some e"
  shows "pdf_preview_try w f s = (Inl e, s)"
  using assms by (simp add: pdf_preview_try_def)

lemma preview_pdf_cleared:
  assumes "file_type f = ''application/pdf''"
    and "fst (pdf_preview_try w f s) = Inr None \<or> (\<exists>e. fst (pdf_preview_try w f s) = Inl e)"
  shows "fst (preview w (Some f) s) = Inr None"
  using assms by (cases "pdf_preview_try w f s") (auto simp: preview_def)

text \<open>
  Claim C5. For a PDF whose page count exceeds one, the selection is cleared (the variable
  \<^verbatim>\<open>uploaded_file\<close> is \<open>None\<close> after the preview), an error is shown (the multi-page
  message when the temporary file could be written, the PDF error otherwise), no
  exception leaves \<^verbatim>\<open>main\<close>, and the run makes no network call: no storage upload, no
  OCR call, no inference call.
\<close>

theorem multi_page_pdf_rejected_before_network:
  assumes "uploaded_file u = Some f"
    and "file_type f = ''application/pdf''"
    and "PdfReader w (getvalue f) = Inr pages"
    and "1 < length pages"
  shows "fst (preview w (uploaded_file u) (startup w)) = Inr None
       \<and> fst (script w u) = None
       \<and> \<not> list_ex is_network_call (trace (snd (script w u)))
       \<and> (tmp_write w (getvalue f) = None \<longrightarrow>
            StError multi_page_message \<in> set (trace (snd (script w u))))
       \<and> (\<forall>e. tmp_write w (getvalue f) = Some e \<longrightarrow>
            StErrorExn ''Error processing PDF: '' e \<in> set (trace (snd (script w u))))"
proof -
  let ?s0 = "startup w"
  have cleared: "fst (preview w (uploaded_file u) ?s0) = Inr None"
    using assms preview_pdf_cleared[OF assms(2) pdf_multi_page[OF assms(3,4)]] by simp
  then have run: "script w u = (None, snd (preview w (uploaded_file u) ?s0))"
    by (simp add: script_def main_rejected)
  have net: "\<not> list_ex is_network_call (trace (snd (script w u)))"
    using run preview_network[of w "uploaded_file u" ?s0] startup_no_network[of w] by simp
  have shown: "StError multi_page_message \<in> set (trace (snd (script w u)))"
    if "tmp_write w (getvalue f) = None"
  proof -
    obtain r s' where r: "pdf_preview_try w f ?s0 = (r, s')"
      by (cases "pdf_preview_try w f ?s0")
    with pdf_multi_page_trace[OF assms(3,4) that, of ?s0]
    have "StError multi_page_message \<in> set (trace s')" by simp
    with r run assms(1,2) show ?thesis
      by (auto simp: preview_def trace_emit split: sum.splits)
  qed
  have failed: "StErrorExn ''Error processing PDF: '' e \<in> set (trace (snd (script w u)))"
    if "tmp_write w (getvalue f) = Some e" for e
    using run assms(1,2) pdf_tmp_write_fails[OF that]
    by (simp add: preview_def trace_emit)
  show ?thesis using cleared run net shown failed by simp
qed

theorem multi_page_pdf_rejected_before_network_witness:
  "PdfReader world_three_pages ''%PDF'' = Inr [Inr ''one'', Inr ''two'', Inr ''three'']
   \<and> tmp_write world_three_pages ''%PDF'' = None
   \<and> fst (preview world_three_pages (uploaded_file ui_pdf) (startup world_three_pages)) = Inr None
   \<and> fst (script world_three_pages ui_pdf) = None
   \<and> \<not> list_ex is_network_call (trace (snd (script world_three_pages ui_pdf)))
   \<and> StError multi_page_message \<in> set (trace (snd (script world_three_pages ui_pdf)))"
proof -
  let ?f = "\<lparr>name = ''report.pdf'', file_type = ''application/pdf'', getvalue = ''%PDF''\<rparr>"
  have h1: "uploaded_file ui_pdf = Some ?f" by (simp add: ui_pdf_def)
  have h2: "file_type ?f = ''application/pdf''" by simp
  have h3: "PdfReader world_three_pages (getvalue ?f)
              = Inr [Inr ''one'', Inr ''two'', Inr ''three'']"
    by (simp add: world_three_pages_def world_ok_def)
  have h4: "1 < length [Inr ''one'', Inr ''two'', Inr ''three'' :: exn + string]" by simp
  have h5: "tmp_write world_three_pages (getvalue ?f) = None"
    by (simp add: world_three_pages_def world_ok_def)
  from multi_page_pdf_rejected_before_network[OF h1 h2 h3 h4] h3 h5
  show ?thesis by simp
qed

text \<open>
  Claim C10. For a PDF on which the validation raises (writing the temporary file,
  reading the PDF, taking the first page, extracting its text or deleting the file), the
  error is reported, the selection is cleared, no exception leaves \<^verbatim>\<open>main\<close>, and the
  run makes no network call.
\<close>

theorem pdf_validation_exception_rejected:
  assumes "uploaded_file u = Some f"
    and "file_type f = ''application/pdf''"
    and "fst (pdf_preview_try w f (startup w)) = Inl e"
  shows "fst (preview w (uploaded_file u) (startup w)) = Inr None
       \<and> fst (script w u) = None
       \<and> StErrorExn ''Error processing PDF: '' e \<in> set (trace (snd (script w u)))
       \<and> \<not> list_ex is_network_call (trace (snd (script w u)))"
proof -
  let ?s0 = "startup w"
  obtain s' where r: "pdf_preview_try w f ?s0 = (Inl e, s')"
    using assms(3) by (cases "pdf_preview_try w f ?s0") simp
  have pv: "preview w (uploaded_file u) ?s0
              = (Inr None, emit (StErrorExn ''Error processing PDF: '' e) s')"
    using assms(1,2) r by (simp add: preview_def)
  then have run: "script w u = (None, emit (StErrorExn ''Error processing PDF: '' e) s')"
    by (simp add: script_def main_rejected)
  have net: "\<not> list_ex is_network_call (trace (snd (script w u)))"
    using run pv preview_network[of w "uploaded_file u" ?s0] startup_no_network[of w] by simp
  show ?thesis using pv run net by (simp add: trace_emit)
qed

theorem pdf_validation_exception_rejected_witness:
  "fst (pdf_preview_try world_corrupt_pdf
          \<lparr>name = ''report.pdf'', file_type = ''application/pdf'', getvalue = ''%PDF''\<rparr>
          (startup world_corrupt_pdf)) = Inl (ServiceError ''EOF marker not found'')
   \<and> fst (preview world_corrupt_pdf (uploaded_file ui_pdf) (startup world_corrupt_pdf)) = Inr None
   \<and> fst (script world_corrupt_pdf ui_pdf) = None
   \<and> StErrorExn ''Error processing PDF: '' (ServiceError ''EOF marker not found'')
        \<in> set (trace (snd (script world_corrupt_pdf ui_pdf)))
   \<and> \<not> list_ex is_network_call (trace (snd (script world_corrupt_pdf ui_pdf)))"
proof -
  let ?f = "\<lparr>name = ''report.pdf'', file_type = ''application/pdf'', getvalue = ''%PDF''\<rparr>"
  have h1: "uploaded_file ui_pdf = Some ?f" by (simp add: ui_pdf_def)
  have h2: "file_type ?f = ''application/pdf''" by simp
  have h3: "fst (pdf_preview_try world_corrupt_pdf ?f (startup world_corrupt_pdf))
              = Inl (ServiceError ''EOF marker not found'')"
    by (simp add: pdf_preview_try_def world_corrupt_pdf_def world_ok_def)
  from pdf_validation_exception_rejected[OF h1 h2 h3] h3
  show ?thesis by simp
qed

section \<open>The upload and the storage key\<close>

lemma digit_is_digit: "is_digit (digit n)"
proof -
  have "n mod 10 < length ''0123456789''" by simp
  then have "''0123456789'' ! (n mod 10) \<in> set ''0123456789''" by (rule nth_mem)
  then show ?thesis by (simp only: is_digit_def digit_def)
qed

lemma strftime_matches:
  assumes "1000 \<le> year d" and "year d \<le> 9999"
  shows "matches_timestamp (strftime d)"
  using assms
  by (simp add: matches_timestamp_def strftime_def strftime_Y_def pad2_def digit_is_digit)

lemma split_on_nonempty: "split_on c s \<noteq> []"
  by (induction s) (auto split: list.splits)

lemma split_on_no_sep: "c \<notin> set s \<Longrightarrow> split_on c s = [s]"
  by (induction s) auto

lemma split_on_append:
  "split_on c (a @ c # b) = split_on c a @ split_on c b"
proof (induction a)
  case Nil
  show ?case by simp
next
  case (Cons x a)
  obtain w ws where "split_on c a = w # ws"
    using split_on_nonempty[of c a] by (cases "split_on c a") auto
  with Cons show ?case by simp
qed

lemma file_extension_after_last_dot:
  assumes "nm = a @ CHR ''.'' # b" and "CHR ''.'' \<notin> set b"
  shows "file_extension nm = b"
proof -
  from assms have "split_on CHR ''.'' nm = split_on CHR ''.'' a @ [b]"
    by (simp add: split_on_append split_on_no_sep)
  then show ?thesis by (simp add: file_extension_def)
qed

lemma file_extension_suffix:
  assumes "CHR ''.'' \<in> set nm"
  shows "\<exists>stem. nm = stem @ ''.'' @ file_extension nm"
proof -
  from assms obtain a b where ab: "nm = a @ CHR ''.'' # b" "CHR ''.'' \<notin> set b"
    using split_list_last[of "CHR ''.''" nm] by blast
  then have "file_extension nm = b" by (rule file_extension_after_last_dot)
  with ab show ?thesis by simp
qed

lemma file_extension_no_dot: "CHR ''.'' \<notin> set (file_extension nm)"
proof (cases "CHR ''.'' \<in> set nm")
  case True
  then obtain a b where ab: "nm = a @ CHR ''.'' # b" "CHR ''.'' \<notin> set b"
    using split_list_last[of "CHR ''.''" nm] by blast
  then have "file_extension nm = b" by (rule file_extension_after_last_dot)
  with ab show ?thesis by simp
next
  case False
  then show ?thesis by (simp add: file_extension_def split_on_no_sep)
qed

lemma upload_to_s3_False:
  assumes "fst (upload_to_s3 w fo b k s0) = Inr False"
  shows "\<exists>e. upload_fileobj w fo b k = Some e \<and> upload_to_s3 w fo b k s =
           (Inr False, emit (StErrorExn ''Error uploading to S3: '' e) (emit (S3Upload b k) s))"
  using assms by (auto simp: upload_to_s3_def Let_def split: option.splits)

lemma preview_textract:
  "list_ex is_textract_call (trace (snd (preview w uf s))) = list_ex is_textract_call (trace s)"
  by (simp add: preview_def pdf_preview_try_def Let_def trace_emit
           split: option.splits sum.splits list.splits)

lemma preview_inference:
  "list_ex is_inference_call (trace (snd (preview w uf s)))
   = list_ex is_inference_call (trace s)"
  by (simp add: preview_def pdf_preview_try_def Let_def trace_emit
           split: option.splits sum.splits list.splits)

lemma preview_upload:
  "filter is_upload_call (trace (snd (preview w uf s))) = filter is_upload_call (trace s)"
  by (simp add: preview_def pdf_preview_try_def Let_def trace_emit
           split: option.splits sum.splits list.splits)

lemma startup_trace:
  "filter is_upload_call (trace (startup w)) = []"
  "\<not> list_ex is_textract_call (trace (startup w))"
  "\<not> list_ex is_inference_call (trace (startup w))"
  by (simp_all add: startup_def init_state_def trace_emit)

lemma invoke_bedrock_model_upload:
  "filter is_upload_call (trace (snd (invoke_bedrock_model w p t s)))
   = filter is_upload_call (trace s)"
  by (simp add: invoke_bedrock_model_def Let_def trace_emit split: sum.splits)

lemma invoke_bedrock_model_ticks:
  "ticks (snd (invoke_bedrock_model w p t s)) = ticks s"
  by (simp add: invoke_bedrock_model_def Let_def ticks_emit split: sum.splits)

lemma process_document_try_upload:
  "filter is_upload_call (trace (snd (process_document_try w k p s)))
   = filter is_upload_call (trace s)"
  by (simp add: process_document_try_def Let_def trace_emit time_time_def split_beta
        invoke_bedrock_model_upload split: option.splits sum.splits)

lemma process_document_upload:
  "filter is_upload_call (trace (snd (process_document w k p s)))
   = filter is_upload_call (trace s)"
proof -
  obtain r s' where r: "process_document_try w k p s = (r, s')"
    by (cases "process_document_try w k p s")
  with process_document_try_upload[of w k p s]
  have "filter is_upload_call (trace s') = filter is_upload_call (trace s)" by simp
  with r show ?thesis by (simp add: process_document_def trace_emit split: sum.splits)
qed

lemma show_results_upload:
  "filter is_upload_call (trace (snd (show_results r t s))) = filter is_upload_call (trace s)"
  by (simp add: show_results_def Let_def trace_emit split: sum.splits)

text \<open>
  Claim C6. When the upload fails, that is \<^verbatim>\<open>upload_to_s3\<close> returns \<open>False\<close> for the
  accepted file, the upload's exception and the failure message are shown, no exception
  leaves \<^verbatim>\<open>main\<close>, and the run has neither an OCR call nor an inference call.
\<close>

theorem upload_failure_halts_before_extraction:
  assumes "fst (preview w (uploaded_file u) (startup w)) = Inr (Some f)"
    and "button u"
    and "fst (upload_to_s3 w (getvalue f) (S3_BUCKET w) (s3_key (now w) (name f)) s0) = Inr False"
  shows "fst (script w u) = None
       \<and> (\<exists>e. StErrorExn ''Error uploading to S3: '' e \<in> set (trace (snd (script w u))))
       \<and> StError ''Failed to upload file'' \<in> set (trace (snd (script w u)))
       \<and> \<not> list_ex is_textract_call (trace (snd (script w u)))
       \<and> \<not> list_ex is_inference_call (trace (snd (script w u)))"
proof -
  let ?key = "s3_key (now w) (name f)"
  obtain s1 where pv: "preview w (uploaded_file u) (startup w) = (Inr (Some f), s1)"
    using assms(1) by (cases "preview w (uploaded_file u) (startup w)") simp
  have s1: "\<not> list_ex is_textract_call (trace s1)" "\<not> list_ex is_inference_call (trace s1)"
    using pv preview_textract[of w "uploaded_file u" "startup w"]
      preview_inference[of w "uploaded_file u" "startup w"] startup_trace[of w]
    by simp_all
  let ?s2 = "snd (time_time w s1)"
  obtain e where up: "upload_to_s3 w (getvalue f) (S3_BUCKET w) ?key ?s2 =
      (Inr False, emit (StErrorExn ''Error uploading to S3: '' e)
                    (emit (S3Upload (S3_BUCKET w) ?key) ?s2))"
    using upload_to_s3_False[OF assms(3)] by blast
  have run: "script w u = (None, emit (StError ''Failed to upload file'')
      (emit (StErrorExn ''Error uploading to S3: '' e) (emit (S3Upload (S3_BUCKET w) ?key) ?s2)))"
    using pv assms(2) up by (simp add: script_def main_def Let_def split_beta)
  have tr: "trace (snd (script w u)) = trace s1 @
      [S3Upload (S3_BUCKET w) ?key, StErrorExn ''Error uploading to S3: '' e,
       StError ''Failed to upload file'']"
    by (simp add: run trace_emit time_time_def)
  show ?thesis using run tr s1 by auto
qed

theorem upload_failure_halts_before_extraction_witness:
  "fst (preview world_upload_fails (uploaded_file ui_png) (startup world_upload_fails))
     = Inr (Some \<lparr>name = ''scan.png'', file_type = ''image/png'', getvalue = ''bytes''\<rparr>)
   \<and> button ui_png
   \<and> fst (upload_to_s3 world_upload_fails ''bytes'' (S3_BUCKET world_upload_fails)
            (s3_key (now world_upload_fails) ''scan.png'') init_state) = Inr False
   \<and> fst (script world_upload_fails ui_png) = None
   \<and> StError ''Failed to upload file'' \<in> set (trace (snd (script world_upload_fails ui_png)))
   \<and> \<not> list_ex is_textract_call (trace (snd (script world_upload_fails ui_png)))
   \<and> \<not> list_ex is_inference_call (trace (snd (script world_upload_fails ui_png)))"
proof -
  let ?f = "\<lparr>name = ''scan.png'', file_type = ''image/png'', getvalue = ''bytes''\<rparr>"
  have h1: "fst (preview world_upload_fails (uploaded_file ui_png) (startup world_upload_fails))
              = Inr (Some ?f)"
    by (simp add: preview_def ui_png_def Let_def world_upload_fails_def world_ok_def)
  have h2: "button ui_png" by (simp add: ui_png_def)
  have h3: "fst (upload_to_s3 world_upload_fails (getvalue ?f) (S3_BUCKET world_upload_fails)
                  (s3_key (now world_upload_fails) (name ?f)) init_state) = Inr False"
    by (simp add: upload_to_s3_def world_upload_fails_def world_ok_def Let_def)
  from upload_failure_halts_before_extraction[OF h1 h2 h3] h1 h2 h3
  show ?thesis by simp
qed

text \<open>
  Claim C7. For an accepted file (one that the preview lets through) whose processing is
  started, the run makes exactly one upload, under the key \<^verbatim>\<open>uploads/\<close>, the timestamp
  of \<^verbatim>\<open>datetime.now()\<close> in the form \<^verbatim>\<open>YYYYMMDD_HHMMSS\<close>, a dot, and the extension: the part
  of the original filename after its last dot. The year has four digits.
\<close>

theorem storage_key_matches_pattern:
  assumes "fst (preview w (uploaded_file u) (startup w)) = Inr (Some f)"
    and "button u"
    and "boto3_client w ''s3'' (AWS_REGION w) = None"
    and "1000 \<le> year (now w)" and "year (now w) \<le> 9999"
  shows "filter is_upload_call (trace (snd (script w u))) =
           [S3Upload (S3_BUCKET w)
              (''uploads/'' @ strftime (now w) @ ''.'' @ file_extension (name f))]
       \<and> matches_timestamp (strftime (now w))
       \<and> CHR ''.'' \<notin> set (file_extension (name f))
       \<and> (CHR ''.'' \<in> set (name f) \<longrightarrow>
            (\<exists>stem. name f = stem @ ''.'' @ file_extension (name f)))"
proof -
  let ?key = "s3_key (now w) (name f)"
  obtain s1 where pv: "preview w (uploaded_file u) (startup w) = (Inr (Some f), s1)"
    using assms(1) by (cases "preview w (uploaded_file u) (startup w)") simp
  have s1: "filter is_upload_call (trace s1) = []"
    using pv preview_upload[of w "uploaded_file u" "startup w"] startup_trace(1)[of w] by simp
  let ?s2 = "snd (time_time w s1)"
  let ?s3 = "emit (S3Upload (S3_BUCKET w) ?key) ?s2"
  have s3: "filter is_upload_call (trace ?s3) = [S3Upload (S3_BUCKET w) ?key]"
    using s1 by (simp add: trace_emit time_time_def)
  have "filter is_upload_call (trace (snd (script w u))) = filter is_upload_call (trace ?s3)"
  proof (cases "upload_fileobj w (getvalue f) (S3_BUCKET w) ?key")
    case None
    then have up: "upload_to_s3 w (getvalue f) (S3_BUCKET w) ?key ?s2 = (Inr True, ?s3)"
      using assms(3) by (simp add: upload_to_s3_def Let_def)
    let ?s4 = "emit (StSuccess ''File uploaded successfully!'') ?s3"
    obtain result s5 where pd: "process_document w ?key (custom_prompt u) ?s4 = (result, s5)"
      by (cases "process_document w ?key (custom_prompt u) ?s4")
    have s5: "filter is_upload_call (trace s5) = filter is_upload_call (trace ?s3)"
      using process_document_upload[of w ?key "custom_prompt u" ?s4] pd by (simp add: trace_emit)
    have "snd (script w u) =
            snd (show_results result (fst (time_time w s5) - fst (time_time w s1))
                   (snd (time_time w s5)))"
      using pv assms(2) up pd by (simp add: script_def main_def Let_def split_beta)
    then show ?thesis using s5 by (simp add: show_results_upload time_time_def)
  next
    case (Some e)
    then have "upload_to_s3 w (getvalue f) (S3_BUCKET w) ?key ?s2 =
        (Inr False, emit (StErrorExn ''Error uploading to S3: '' e) ?s3)"
      using assms(3) by (simp add: upload_to_s3_def Let_def)
    then have "snd (script w u) = emit (StError ''Failed to upload file'')
        (emit (StErrorExn ''Error uploading to S3: '' e) ?s3)"
      using pv assms(2) by (simp add: script_def main_def Let_def split_beta)
    then show ?thesis by (simp add: trace_emit)
  qed
  with s3 have "filter is_upload_call (trace (snd (script w u))) =
      [S3Upload (S3_BUCKET w) (''uploads/'' @ strftime (now w) @ ''.'' @ file_extension (name f))]"
    by (simp add: s3_key_def)
  moreover have "matches_timestamp (strftime (now w))"
    using assms(4,5) by (rule strftime_matches)
  moreover have "CHR ''.'' \<notin> set (file_extension (name f))"
    by (rule file_extension_no_dot)
  moreover have "CHR ''.'' \<in> set (name f) \<longrightarrow>
      (\<exists>stem. name f = stem @ ''.'' @ file_extension (name f))"
    using file_extension_suffix by blast
  ultimately show ?thesis by blast
qed

theorem storage_key_matches_pattern_witness:
  "fst (preview world_ok (uploaded_file ui_png) (startup world_ok))
     = Inr (Some \<lparr>name = ''scan.png'', file_type = ''image/png'', getvalue = ''bytes''\<rparr>)
   \<and> button ui_png
   \<and> boto3_client world_ok ''s3'' (AWS_REGION world_ok) = None
   \<and> year (now world_ok) = 2024
   \<and> filter is_upload_call (trace (snd (script world_ok ui_png))) =
        [S3Upload (Some ''bucket'') ''uploads/20240309_140507.png'']
   \<and> matches_timestamp ''20240309_140507''
   \<and> CHR ''.'' \<notin> set ''png''"
proof -
  let ?f = "\<lparr>name = ''scan.png'', file_type = ''image/png'', getvalue = ''bytes''\<rparr>"
  have h1: "fst (preview world_ok (uploaded_file ui_png) (startup world_ok)) = Inr (Some ?f)"
    by (simp add: preview_def ui_png_def Let_def world_ok_def)
  have h2: "button ui_png" by (simp add: ui_png_def)
  have h3: "boto3_client world_ok ''s3'' (AWS_REGION world_ok) = None"
    by (simp add: world_ok_def)
  have y: "year (now world_ok) = 2024" by (simp add: world_ok_def)
  have h4: "1000 \<le> year (now world_ok)" and h5: "year (now world_ok) \<le> 9999"
    by (simp_all add: y)
  have ts: "strftime (now world_ok) = ''20240309_140507''"
    by (simp add: world_ok_def strftime_def strftime_Y_def pad2_def digit_def)
  have ext: "file_extension (name ?f) = ''png''"
    by (simp add: file_extension_def)
  have b: "S3_BUCKET world_ok = Some ''bucket''" by (simp add: world_ok_def)
  from storage_key_matches_pattern[OF h1 h2 h3 h4 h5] ts ext b h1 h2 h3 y
  show ?thesis by simp
qed

section \<open>The pipeline\<close>

lemma process_document_try_raises:
  assumes "boto3_client w ''textract'' (AWS_REGION w) = None"
    and "boto3_client w ''bedrock-runtime'' (AWS_REGION w) = None"
    and "detect_document_text w (document_of w k) = Inl e"
  shows "process_document_try w k p s =
           (Inl e, emit (TextractDetect (document_of w k)) (snd (time_time w s)))"
  using assms by (simp add: process_document_try_def Let_def split_beta bindE_def)

lemma process_document_try_result:
  assumes "process_document_try w k p s = (Inr result, s')"
  shows "\<exists>text. bindE (detect_document_text w (document_of w k)) extract_text = Inr text
       \<and> boto3_client w ''textract'' (AWS_REGION w) = None
       \<and> boto3_client w ''bedrock-runtime'' (AWS_REGION w) = None
       \<and> result = PDict
            [(''extracted_text'', PStr text),
             (''analysis_result'', fst (invoke_bedrock_model w p text
                (snd (time_time w (snd (time_time w
                   (emit (TextractDetect (document_of w k)) (snd (time_time w s))))))))),
             (''textract_time'', PFloat (time w (ticks s + 1) - time w (ticks s))),
             (''bedrock_time'', PFloat (time w (ticks s + 3) - time w (ticks s + 2)))]"
  using assms
  by (auto simp: process_document_try_def Let_def split_beta time_time_def ticks_emit
        invoke_bedrock_model_ticks numeral_3_eq_3 numeral_2_eq_2
        split: option.splits sum.splits)

text \<open>
  Claim C2, as the code has it. In a run that has uploaded the accepted file, when the OCR
  call raises, \<^verbatim>\<open>process_document\<close> reports the error and returns the empty string for
  both the extracted text and the analysis result, with both timings 0. The Inference
  Client is not invoked: the run has no inference call. The pipeline does not abort:
  nothing leaves \<^verbatim>\<open>main\<close>, and after the error the run shows the three metrics (0 for
  the OCR stage, 0 for the inference stage, the total time) and the two text areas, both
  empty.
\<close>

theorem ocr_exception_gives_empty_result_without_inference:
  assumes "preview w (uploaded_file u) (startup w) = (Inr (Some f), s1)"
    and "button u"
    and "boto3_client w ''s3'' (AWS_REGION w) = None"
    and "upload_fileobj w (getvalue f) (S3_BUCKET w) (s3_key (now w) (name f)) = None"
    and "boto3_client w ''textract'' (AWS_REGION w) = None"
    and "boto3_client w ''bedrock-runtime'' (AWS_REGION w) = None"
    and "detect_document_text w (document_of w (s3_key (now w) (name f))) = Inl e"
  shows "fst (process_document w (s3_key (now w) (name f)) prompt s) = PDict
           [(''extracted_text'', PStr []), (''analysis_result'', PStr []),
            (''textract_time'', PInt 0), (''bedrock_time'', PInt 0)]
       \<and> trace (snd (process_document w (s3_key (now w) (name f)) prompt s)) = trace s @
           [TextractDetect (document_of w (s3_key (now w) (name f))),
            StErrorExn ''Error processing document: '' e]
       \<and> fst (script w u) = None
       \<and> trace (snd (script w u)) = trace s1 @
           [S3Upload (S3_BUCKET w) (s3_key (now w) (name f)),
            StSuccess ''File uploaded successfully!'',
            TextractDetect (document_of w (s3_key (now w) (name f))),
            StErrorExn ''Error processing document: '' e,
            StMetric ''Textract Processing Time'' (PInt 0),
            StMetric ''Bedrock Analysis Time'' (PInt 0),
            StMetric ''Total Processing Time'' (PFloat (time w (ticks s1 + 2) - time w (ticks s1))),
            StSubheader ''Extracted Text'',
            StTextArea ''Text extracted from document'' (PStr []),
            StSubheader ''Analysis Result'',
            StTextArea ''AI analysis results'' (PStr [])]
       \<and> \<not> list_ex is_inference_call (trace (snd (script w u)))"
proof -
  let ?key = "s3_key (now w) (name f)"
  let ?empty = "PDict [(''extracted_text'', PStr []), (''analysis_result'', PStr []),
                       (''textract_time'', PInt 0), (''bedrock_time'', PInt 0)]"
  have pd: "process_document w ?key p s' =
      (?empty, emit (StErrorExn ''Error processing document: '' e)
                 (emit (TextractDetect (document_of w ?key)) (snd (time_time w s'))))" for p s'
    using process_document_try_raises[OF assms(5,6,7), of p s']
    by (simp add: process_document_def)
  have s1: "\<not> list_ex is_inference_call (trace s1)"
    using assms(1) preview_inference[of w "uploaded_file u" "startup w"] startup_trace(3)[of w]
    by simp
  let ?s2 = "snd (time_time w s1)"
  let ?s3 = "emit (S3Upload (S3_BUCKET w) ?key) ?s2"
  let ?s4 = "emit (StSuccess ''File uploaded successfully!'') ?s3"
  let ?s5 = "snd (process_document w ?key (custom_prompt u) ?s4)"
  have up: "upload_to_s3 w (getvalue f) (S3_BUCKET w) ?key ?s2 = (Inr True, ?s3)"
    using assms(3,4) by (simp add: upload_to_s3_def Let_def)
  have run: "script w u =
      show_results ?empty (fst (time_time w ?s5) - fst (time_time w s1)) (snd (time_time w ?s5))"
    using assms(1,2) up pd[of "custom_prompt u" ?s4]
    by (simp add: script_def main_def Let_def split_beta)
  have tk: "ticks ?s5 = ticks s1 + 2"
    by (simp add: pd time_time_def ticks_emit)
  have tr5: "trace ?s5 = trace s1 @
      [S3Upload (S3_BUCKET w) ?key, StSuccess ''File uploaded successfully!'',
       TextractDetect (document_of w ?key), StErrorExn ''Error processing document: '' e]"
    by (simp add: pd time_time_def trace_emit)
  have r1: "fst (script w u) = None"
    by (simp add: run show_results_def Let_def)
  have r2: "trace (snd (script w u)) = trace s1 @
           [S3Upload (S3_BUCKET w) ?key,
            StSuccess ''File uploaded successfully!'',
            TextractDetect (document_of w ?key),
            StErrorExn ''Error processing document: '' e,
            StMetric ''Textract Processing Time'' (PInt 0),
            StMetric ''Bedrock Analysis Time'' (PInt 0),
            StMetric ''Total Processing Time'' (PFloat (time w (ticks s1 + 2) - time w (ticks s1))),
            StSubheader ''Extracted Text'',
            StTextArea ''Text extracted from document'' (PStr []),
            StSubheader ''Analysis Result'',
            StTextArea ''AI analysis results'' (PStr [])]"
    using tk tr5 by (simp add: run show_results_def Let_def trace_emit time_time_def)
  have r3: "\<not> list_ex is_inference_call (trace (snd (script w u)))"
    using s1 by (simp add: r2)
  have p1: "fst (process_document w ?key prompt s) = ?empty"
    by (simp add: pd)
  have p2: "trace (snd (process_document w ?key prompt s)) = trace s @
           [TextractDetect (document_of w ?key), StErrorExn ''Error processing document: '' e]"
    by (simp add: pd time_time_def trace_emit)
  from p1 p2 r1 r2 r3 show ?thesis by blast
qed

theorem ocr_exception_gives_empty_result_without_inference_witness:
  "preview world_ocr_fails (uploaded_file ui_png) (startup world_ocr_fails)
     = (Inr (Some \<lparr>name = ''scan.png'', file_type = ''image/png'', getvalue = ''bytes''\<rparr>),
        \<lparr>trace = [StWrite ''Image preview:'', StImage ''Preview of uploaded document''],
           ticks = 0\<rparr>)
   \<and> button ui_png
   \<and> upload_fileobj world_ocr_fails ''bytes'' (S3_BUCKET world_ocr_fails)
        ''uploads/20240309_140507.png'' = None
   \<and> detect_document_text world_ocr_fails
        (document_of world_ocr_fails ''uploads/20240309_140507.png'')
       = Inl (ServiceError ''ThrottlingException'')
   \<and> fst (script world_ocr_fails ui_png) = None
   \<and> trace (snd (script world_ocr_fails ui_png)) =
        [StWrite ''Image preview:'', StImage ''Preview of uploaded document'',
         S3Upload (Some ''bucket'') ''uploads/20240309_140507.png'',
         StSuccess ''File uploaded successfully!'',
         TextractDetect (document_of world_ocr_fails ''uploads/20240309_140507.png''),
         StErrorExn ''Error processing document: '' (ServiceError ''ThrottlingException''),
         StMetric ''Textract Processing Time'' (PInt 0),
         StMetric ''Bedrock Analysis Time'' (PInt 0),
         StMetric ''Total Processing Time'' (PFloat 2),
         StSubheader ''Extracted Text'',
         StTextArea ''Text extracted from document'' (PStr []),
         StSubheader ''Analysis Result'',
         StTextArea ''AI analysis results'' (PStr [])]
   \<and> \<not> list_ex is_inference_call (trace (snd (script world_ocr_fails ui_png)))"
proof -
  let ?f = "\<lparr>name = ''scan.png'', file_type = ''image/png'', getvalue = ''bytes''\<rparr>"
  let ?s1 = "\<lparr>trace = [StWrite ''Image preview:'', StImage ''Preview of uploaded document''],
               ticks = 0\<rparr>"
  have k: "s3_key (now world_ocr_fails) (name ?f) = ''uploads/20240309_140507.png''"
    by (simp add: world_ocr_fails_def world_ok_def s3_key_def strftime_def strftime_Y_def
          pad2_def digit_def file_extension_def)
  have h1: "preview world_ocr_fails (uploaded_file ui_png) (startup world_ocr_fails)
              = (Inr (Some ?f), ?s1)"
    by (simp add: preview_def ui_png_def Let_def world_ocr_fails_def world_ok_def
          startup_def init_state_def emit_def)
  have h2: "button ui_png" by (simp add: ui_png_def)
  have h3: "boto3_client world_ocr_fails ''s3'' (AWS_REGION world_ocr_fails) = None"
    by (simp add: world_ocr_fails_def world_ok_def)
  have h4: "upload_fileobj world_ocr_fails (getvalue ?f) (S3_BUCKET world_ocr_fails)
              (s3_key (now world_ocr_fails) (name ?f)) = None"
    by (simp add: world_ocr_fails_def world_ok_def)
  have h5: "boto3_client world_ocr_fails ''textract'' (AWS_REGION world_ocr_fails) = None"
    by (simp add: world_ocr_fails_def world_ok_def)
  have h6: "boto3_client world_ocr_fails ''bedrock-runtime'' (AWS_REGION world_ocr_fails) = None"
    by (simp add: world_ocr_fails_def world_ok_def)
  have h7: "detect_document_text world_ocr_fails
              (document_of world_ocr_fails (s3_key (now world_ocr_fails) (name ?f)))
            = Inl (ServiceError ''ThrottlingException'')"
    by (simp add: world_ocr_fails_def world_ok_def)
  have b: "S3_BUCKET world_ocr_fails = Some ''bucket''"
    by (simp add: world_ocr_fails_def world_ok_def)
  have t: "time world_ocr_fails (ticks ?s1 + 2) - time world_ocr_fails (ticks ?s1) = 2"
    by (simp add: world_ocr_fails_def world_ok_def)
  from ocr_exception_gives_empty_result_without_inference
         [OF h1 h2 h3 h4 h5 h6 h7, of "''Summarise''" init_state]
       k b t h1 h2 h4 h7
  show ?thesis by simp
qed

lemmas run_defs = script_def startup_def init_state_def main_def preview_def
  show_results_def process_document_def process_document_try_def invoke_bedrock_model_def
  read_response_def extract_text_def upload_to_s3_def time_time_def emit_def bindE_def
  s3_key_def strftime_def strftime_Y_def pad2_def digit_def file_extension_def document_of_def
  py_join_def Let_def

text \<open>
  Claim C2 as the specification words it fails: in the run below the OCR call raises, and
  the whole run has its one OCR call and no inference call.
\<close>

theorem ocr_exception_still_invokes_inference_counterexample:
  "detect_document_text world_ocr_fails (document_of world_ocr_fails ''uploads/20240309_140507.png'')
     = Inl (ServiceError ''ThrottlingException'')
   \<and> filter is_textract_call (trace (snd (script world_ocr_fails ui_png)))
       = [TextractDetect (document_of world_ocr_fails ''uploads/20240309_140507.png'')]
   \<and> \<not> list_ex is_inference_call (trace (snd (script world_ocr_fails ui_png)))"
  by (simp add: world_ocr_fails_def world_ok_def ui_png_def run_defs)

text \<open>
  Claim C8. The extracted text that \<^verbatim>\<open>process_document\<close> returns is determined by the
  stored object reference (bucket and key) and the outcome of the OCR call on it (with
  the outcome of creating the two clients): two invocations that agree on these return
  the same extracted text, whatever the prompt, the clock, the model service and the
  state before the call.
\<close>

theorem extracted_text_deterministic:
  assumes "S3_BUCKET w1 = S3_BUCKET w2"
    and "detect_document_text w1 (document_of w1 key) = detect_document_text w2 (document_of w2 key)"
    and "boto3_client w1 ''textract'' (AWS_REGION w1) = boto3_client w2 ''textract'' (AWS_REGION w2)"
    and "boto3_client w1 ''bedrock-runtime'' (AWS_REGION w1)
       = boto3_client w2 ''bedrock-runtime'' (AWS_REGION w2)"
  shows "py_getitem (fst (process_document w1 key prompt1 s1)) ''extracted_text''
       = py_getitem (fst (process_document w2 key prompt2 s2)) ''extracted_text''"
  using assms
  by (simp add: process_document_def process_document_try_def Let_def split_beta
        split: option.splits sum.splits)

theorem extracted_text_deterministic_witness:
  "S3_BUCKET world_ok = S3_BUCKET world_clock_back
   \<and> detect_document_text world_ok (document_of world_ok ''uploads/20240309_140507.png'')
       = detect_document_text world_clock_back
           (document_of world_clock_back ''uploads/20240309_140507.png'')
   \<and> py_getitem (fst (process_document world_ok ''uploads/20240309_140507.png''
                         ''Summarise'' init_state)) ''extracted_text''
       = py_getitem (fst (process_document world_clock_back ''uploads/20240309_140507.png''
                         ''Translate'' (emit (StWrite ''again'') init_state))) ''extracted_text''"
proof -
  have h1: "S3_BUCKET world_ok = S3_BUCKET world_clock_back"
    by (simp add: world_clock_back_def)
  have h2: "detect_document_text world_ok (document_of world_ok ''uploads/20240309_140507.png'')
       = detect_document_text world_clock_back
           (document_of world_clock_back ''uploads/20240309_140507.png'')"
    by (simp add: world_clock_back_def world_ok_def)
  have h3: "boto3_client world_ok ''textract'' (AWS_REGION world_ok)
       = boto3_client world_clock_back ''textract'' (AWS_REGION world_clock_back)"
    by (simp add: world_clock_back_def)
  have h4: "boto3_client world_ok ''bedrock-runtime'' (AWS_REGION world_ok)
       = boto3_client world_clock_back ''bedrock-runtime'' (AWS_REGION world_clock_back)"
    by (simp add: world_clock_back_def)
  from extracted_text_deterministic[OF h1 h2 h3 h4] h1 h2
  show ?thesis by simp
qed

text \<open>
  Claim C9, as the code has it. On every path \<^verbatim>\<open>process_document\<close> returns a dictionary
  with exactly the four keys \<open>extracted_text\<close>, \<open>analysis_result\<close>, \<open>textract_time\<close> and
  \<open>bedrock_time\<close>; on the exception path both texts are the empty string and both
  timings are 0. The two timings are not negative when the reading of
  \<^verbatim>\<open>time.time()\<close> at the end of each stage is not below the reading at its start.
\<close>

theorem process_document_result_shape:
  "\<exists>text result t1 t2.
     fst (process_document w key prompt s) = PDict
       [(''extracted_text'', text), (''analysis_result'', result),
        (''textract_time'', t1), (''bedrock_time'', t2)]
   \<and> (isl (fst (process_document_try w key prompt s)) \<longrightarrow>
        text = PStr [] \<and> result = PStr [] \<and> t1 = PInt 0 \<and> t2 = PInt 0)
   \<and> (time w (ticks s) \<le> time w (ticks s + 1) \<and> time w (ticks s + 2) \<le> time w (ticks s + 3) \<longrightarrow>
        timing_nonneg t1 \<and> timing_nonneg t2)"
proof (cases "process_document_try w key prompt s")
  case (Pair r s')
  show ?thesis
  proof (cases r)
    case (Inl e)
    with Pair show ?thesis by (simp add: process_document_def)
  next
    case (Inr v)
    with Pair process_document_try_result[of w key prompt s v s']
    show ?thesis by (auto simp: process_document_def)
  qed
qed

theorem process_document_result_shape_witness:
  "time world_ok (ticks init_state) \<le> time world_ok (ticks init_state + 1)
   \<and> time world_ok (ticks init_state + 2) \<le> time world_ok (ticks init_state + 3)
   \<and> py_getitem (fst (process_document world_ok ''uploads/20240309_140507.png''
                         ''Summarise'' init_state)) ''textract_time'' = Inr (PFloat 1)
   \<and> py_getitem (fst (process_document world_ok ''uploads/20240309_140507.png''
                         ''Summarise'' init_state)) ''bedrock_time'' = Inr (PFloat 1)
   \<and> timing_nonneg (PFloat 1)
   \<and> isl (fst (process_document_try world_ocr_fails ''uploads/20240309_140507.png''
                  ''Summarise'' init_state))
   \<and> fst (process_document world_ocr_fails ''uploads/20240309_140507.png''
             ''Summarise'' init_state)
       = PDict [(''extracted_text'', PStr []), (''analysis_result'', PStr []),
                (''textract_time'', PInt 0), (''bedrock_time'', PInt 0)]"
proof -
  let ?k = "''uploads/20240309_140507.png''"
  have c: "time world_ok (ticks init_state) \<le> time world_ok (ticks init_state + 1)
         \<and> time world_ok (ticks init_state + 2) \<le> time world_ok (ticks init_state + 3)"
    by (simp add: world_ok_def init_state_def)
  have v: "fst (process_document world_ok ?k ''Summarise'' init_state) = PDict
       [(''extracted_text'', PStr ''Hello\<newline>World''), (''analysis_result'', PStr ''a,b,c''),
        (''textract_time'', PFloat 1), (''bedrock_time'', PFloat 1)]"
    by (simp add: world_ok_def sample_response_def sample_blocks_def sample_model_response_def
          request_body_def MODEL_ID_def run_defs)
  from process_document_result_shape[of world_ok ?k "''Summarise''" init_state] c v
  have n: "timing_nonneg (PFloat 1)" by simp
  have i: "isl (fst (process_document_try world_ocr_fails ?k ''Summarise'' init_state))"
    by (simp add: world_ocr_fails_def world_ok_def run_defs)
  from process_document_result_shape[of world_ocr_fails ?k "''Summarise''" init_state] i
  have e: "fst (process_document world_ocr_fails ?k ''Summarise'' init_state)
       = PDict [(''extracted_text'', PStr []), (''analysis_result'', PStr []),
                (''textract_time'', PInt 0), (''bedrock_time'', PInt 0)]"
    by auto
  from c v n i e show ?thesis by simp
qed

text \<open>
  Claim C9 as the specification words it fails on the normal path: \<^verbatim>\<open>time.time()\<close> is
  the wall clock, and when it is set back between the two readings of the OCR stage
  (10 at the start, 8 at the end) the timing of the result is negative.
\<close>

theorem timing_nonneg_counterexample:
  "py_getitem (fst (process_document world_clock_back ''uploads/20240309_140507.png''
                      ''Summarise'' init_state)) ''textract_time'' = Inr (PFloat (- 2))
   \<and> \<not> timing_nonneg (PFloat (- 2))"
  by (simp add: world_clock_back_def world_ok_def sample_response_def sample_blocks_def
        sample_model_response_def request_body_def MODEL_ID_def run_defs)

text \<open>
  Claim C1, at a run where the slider for the maximum number of tokens is set to 500: the
  one model request of the run has the fixed system instruction and one user turn made of
  the prompt and the extracted text, and its \<open>max_new_tokens\<close> is 1000, the constant of
  \<^verbatim>\<open>invoke_bedrock_model\<close>, not the slider's value.
\<close>

theorem request_ignores_slider_values:
  "max_new_tokens ui_png = 500
   \<and> filter is_inference_call (trace (snd (script world_ok ui_png)))
       = [BedrockInvoke MODEL_ID (request_body ''Summarise'' ''Hello\<newline>World'')]
   \<and> py_getitem (request_body ''Summarise'' ''Hello\<newline>World'') ''system'' = Inr system_list
   \<and> py_getitem (request_body ''Summarise'' ''Hello\<newline>World'') ''messages''
       = Inr (message_list ''Summarise'' ''Hello\<newline>World'')
   \<and> bindE (py_getitem (request_body ''Summarise'' ''Hello\<newline>World'') ''inferenceConfig'')
        (\<lambda>config. py_getitem config ''max_new_tokens'') = Inr (PInt 1000)"
  by (simp add: world_ok_def ui_png_def sample_response_def sample_blocks_def
        sample_model_response_def request_body_def inf_params_def MODEL_ID_def run_defs)

text \<open>
  In general: \<^verbatim>\<open>main\<close> reads the file, the button and the prompt; a run is the same
  for every value of the four sliders.
\<close>

lemma main_reads_three_widgets:
  assumes "uploaded_file u = uploaded_file u'"
    and "button u = button u'"
    and "custom_prompt u = custom_prompt u'"
  shows "main w u s = main w u' s"
  unfolding main_def assms by (rule refl)

lemma script_independent_of_sliders:
  "script w (u\<lparr>max_new_tokens := a, temperature := b, top_p := c, top_k := d\<rparr>) = script w u"
  unfolding script_def by (rule main_reads_three_widgets) simp_all

end
